theory Spec2Isabelle
  imports Complex_Main "HOL-Library.Multiset" "HOL-Library.Char_ord" "HOL-Library.List_Lexorder"
begin

section \<open>Numbers\<close>

text \<open>
  The columns of the reading tables are 64-bit floating point numbers. They are modelled
  as exact reals extended by the three non-finite values that the arithmetic of the
  tables produces instead of raising: a division by zero gives an infinity or
  not-a-number, and the statistics of a group that is too small are not-a-number.
  Rounding error of the binary representation and the sign of zero are not modelled.
\<close>

datatype float64 = Fin real | PInf | NInf | NaN

fun fabs :: "float64 \<Rightarrow> float64" where
  "fabs (Fin a) = Fin \<bar>a\<bar>"
| "fabs PInf = PInf"
| "fabs NInf = PInf"
| "fabs NaN = NaN"

fun fsub :: "float64 \<Rightarrow> float64 \<Rightarrow> float64" where
  "fsub NaN _ = NaN"
| "fsub _ NaN = NaN"
| "fsub (Fin a) (Fin b) = Fin (a - b)"
| "fsub (Fin a) PInf = NInf"
| "fsub (Fin a) NInf = PInf"
| "fsub PInf PInf = NaN"
| "fsub PInf _ = PInf"
| "fsub NInf NInf = NaN"
| "fsub NInf _ = NInf"

fun fmul :: "float64 \<Rightarrow> float64 \<Rightarrow> float64" where
  "fmul NaN _ = NaN"
| "fmul _ NaN = NaN"
| "fmul (Fin a) (Fin b) = Fin (a * b)"
| "fmul (Fin a) PInf = (if a = 0 then NaN else if 0 < a then PInf else NInf)"
| "fmul (Fin a) NInf = (if a = 0 then NaN else if 0 < a then NInf else PInf)"
| "fmul PInf (Fin b) = (if b = 0 then NaN else if 0 < b then PInf else NInf)"
| "fmul NInf (Fin b) = (if b = 0 then NaN else if 0 < b then NInf else PInf)"
| "fmul PInf PInf = PInf"
| "fmul PInf NInf = NInf"
| "fmul NInf PInf = NInf"
| "fmul NInf NInf = PInf"

fun fdiv :: "float64 \<Rightarrow> float64 \<Rightarrow> float64" where
  "fdiv NaN _ = NaN"
| "fdiv _ NaN = NaN"
| "fdiv (Fin a) (Fin b) =
     (if b = 0 then (if a = 0 then NaN else if 0 < a then PInf else NInf)
      else Fin (a / b))"
| "fdiv (Fin a) _ = Fin 0"
| "fdiv PInf (Fin b) = (if 0 \<le> b then PInf else NInf)"
| "fdiv NInf (Fin b) = (if 0 \<le> b then NInf else PInf)"
| "fdiv _ _ = NaN"

text \<open>Comparisons with not-a-number are false.\<close>

fun flt :: "float64 \<Rightarrow> float64 \<Rightarrow> bool" where
  "flt NaN _ = False"
| "flt _ NaN = False"
| "flt (Fin a) (Fin b) = (a < b)"
| "flt (Fin a) PInf = True"
| "flt (Fin a) NInf = False"
| "flt PInf _ = False"
| "flt NInf NInf = False"
| "flt NInf _ = True"

definition fgt :: "float64 \<Rightarrow> float64 \<Rightarrow> bool" where
  "fgt a b = flt b a"

text \<open>
  \<open>round(x, n)\<close>: the nearest multiple of \<open>10\<^sup>-\<^sup>n\<close>, a tie going to the even
  neighbour; non-finite values are left as they are.
\<close>

definition round_half_even :: "real \<Rightarrow> int" where
  "round_half_even x =
     (let f = \<lfloor>x\<rfloor>; d = x - of_int f
      in if d < 1 / 2 then f else if 1 / 2 < d then f + 1
         else if even f then f else f + 1)"

definition round_to :: "nat \<Rightarrow> real \<Rightarrow> real" where
  "round_to n x = of_int (round_half_even (x * 10 ^ n)) / 10 ^ n"

fun fround :: "nat \<Rightarrow> float64 \<Rightarrow> float64" where
  "fround n (Fin a) = Fin (round_to n a)"
| "fround n x = x"

section \<open>Column statistics\<close>

text \<open>
  \<open>Series.mean()\<close> is not-a-number on an empty column; \<open>Series.std()\<close> is the sample
  standard deviation (divisor \<open>n - 1\<close>) and is not-a-number on fewer than two values.
\<close>

definition mean :: "real list \<Rightarrow> float64" where
  "mean xs = (if xs = [] then NaN else Fin (sum_list xs / real (length xs)))"

definition std :: "real list \<Rightarrow> float64" where
  "std xs =
     (if length xs < 2 then NaN
      else let m = sum_list xs / real (length xs)
           in Fin (sqrt (sum_list (map (\<lambda>x. (x - m)\<^sup>2) xs) / real (length xs - 1))))"



text \<open>\<open>Series.unique()\<close>: the distinct values in order of first appearance.\<close>

fun unique :: "'a list \<Rightarrow> 'a list" where
  "unique [] = []"
| "unique (x # xs) = x # unique (filter (\<lambda>y. y \<noteq> x) xs)"

text \<open>\<open>Series.diff()\<close>: the first entry has no predecessor and is not-a-number.\<close>

fun diff_tail :: "real \<Rightarrow> real list \<Rightarrow> float64 list" where
  "diff_tail prev [] = []"
| "diff_tail prev (x # xs) = Fin (x - prev) # diff_tail x xs"

fun diff :: "real list \<Rightarrow> float64 list" where
  "diff [] = []"
| "diff (x # xs) = NaN # diff_tail x xs"

section \<open>Readings\<close>

text \<open>
  A timestamp is a number of seconds since the epoch; \<open>hour_of\<close> is its hour of day
  (\<open>timestamp.dt.hour\<close>).
\<close>

definition hour_of :: "int \<Rightarrow> int" where
  "hour_of ts = (ts div 3600) mod 24"

record reading =
  timestamp :: int
  zone_id :: string
  zone_name :: string

record pressure_reading = reading +
  sensor_id :: string
  pressure_psi :: real
  elevation :: real
  status :: string

text \<open>
  The flow table gains a column \<open>hour\<close> when a flow detector has run; \<open>None\<close> stands for
  the column being absent, as it is after loading.
\<close>

record flow_reading = reading +
  flow_rate_lpm :: real
  population :: int
  hour :: "int option"

record detector =
  pressure_df :: "pressure_reading list"
  flow_df :: "flow_reading list"

section \<open>Anomaly detection\<close>

record pressure_anomaly =
  pa_timestamp :: int
  pa_zone_id :: string
  pa_zone_name :: string
  pa_sensor_id :: string
  pa_pressure_psi :: real
  pa_expected_pressure :: float64
  pa_deviation :: float64
  pa_z_score :: float64
  pa_anomaly_type :: string
  pa_severity :: string

definition classify_severity :: "float64 \<Rightarrow> string" where
  "classify_severity z_score =
     (if fgt z_score (Fin 4) then ''critical''
      else if fgt z_score (Fin 3) then ''high''
      else if fgt z_score (Fin 2.5) then ''moderate''
      else ''low'')"

definition pressure_z_score :: "float64 \<Rightarrow> float64 \<Rightarrow> pressure_reading \<Rightarrow> float64" where
  "pressure_z_score mean_pressure std_pressure row =
     fabs (fdiv (fsub (Fin (pressure_psi row)) mean_pressure) std_pressure)"

definition pressure_anomaly_of ::
  "float64 \<Rightarrow> float64 \<Rightarrow> pressure_reading \<Rightarrow> pressure_anomaly" where
  "pressure_anomaly_of mean_pressure std_pressure row =
     \<lparr>pa_timestamp = timestamp row,
      pa_zone_id = zone_id row,
      pa_zone_name = zone_name row,
      pa_sensor_id = sensor_id row,
      pa_pressure_psi = pressure_psi row,
      pa_expected_pressure = fround 2 mean_pressure,
      pa_deviation = fround 2 (fsub (Fin (pressure_psi row)) mean_pressure),
      pa_z_score = fround 2 (pressure_z_score mean_pressure std_pressure row),
      pa_anomaly_type =
        (if flt (Fin (pressure_psi row)) mean_pressure then ''pressure_drop''
         else ''pressure_spike''),
      pa_severity = classify_severity (pressure_z_score mean_pressure std_pressure row)\<rparr>"

definition zone_pressure_anomalies ::
  "real \<Rightarrow> pressure_reading list \<Rightarrow> string \<Rightarrow> pressure_anomaly list" where
  "zone_pressure_anomalies threshold_std df zid =
     (let zone_data = filter (\<lambda>r. zone_id r = zid) df;
          mean_pressure = mean (map pressure_psi zone_data);
          std_pressure = std (map pressure_psi zone_data);
          zone_anomalies =
            filter (\<lambda>r. fgt (pressure_z_score mean_pressure std_pressure r) (Fin threshold_std))
              zone_data
      in map (pressure_anomaly_of mean_pressure std_pressure) zone_anomalies)"

definition pressure_anomalies :: "real \<Rightarrow> pressure_reading list \<Rightarrow> pressure_anomaly list" where
  "pressure_anomalies threshold_std df =
     concat (map (zone_pressure_anomalies threshold_std df) (unique (map zone_id df)))"

definition detect_pressure_anomalies ::
  "real \<Rightarrow> detector \<Rightarrow> pressure_anomaly list \<times> detector" where
  "detect_pressure_anomalies threshold_std self =
     (pressure_anomalies threshold_std (pressure_df self), self)"

record flow_anomaly =
  fa_timestamp :: int
  fa_zone_id :: string
  fa_zone_name :: string
  fa_flow_rate_lpm :: real
  fa_expected_flow :: float64
  fa_deviation :: float64
  fa_z_score :: float64
  fa_anomaly_type :: string
  fa_severity :: string
  fa_potential_cause :: string

definition identify_cause :: "real \<Rightarrow> float64 \<Rightarrow> int \<Rightarrow> string" where
  "identify_cause actual_flow expected_flow h =
     (if fgt (Fin actual_flow) (fmul expected_flow (Fin 1.5)) then
        (if 0 \<le> h \<and> h \<le> 5 then ''Potential leak (high night flow)''
         else ''Unusual high demand or unauthorized usage'')
      else ''Supply interruption or valve issue'')"

text \<open>\<open>self.flow_df['hour'] = self.flow_df['timestamp'].dt.hour\<close>\<close>

definition with_hour :: "flow_reading list \<Rightarrow> flow_reading list" where
  "with_hour df = map (\<lambda>r. r\<lparr>hour := Some (hour_of (timestamp r))\<rparr>) df"

definition flow_z_score :: "float64 \<Rightarrow> float64 \<Rightarrow> flow_reading \<Rightarrow> float64" where
  "flow_z_score mean_flow std_flow row =
     fabs (fdiv (fsub (Fin (flow_rate_lpm row)) mean_flow) std_flow)"

text \<open>The rows of a bucket all carry the bucket's hour \<open>h\<close>, which is \<open>row['hour']\<close>.\<close>

definition flow_anomaly_of :: "float64 \<Rightarrow> float64 \<Rightarrow> int \<Rightarrow> flow_reading \<Rightarrow> flow_anomaly" where
  "flow_anomaly_of mean_flow std_flow h row =
     \<lparr>fa_timestamp = timestamp row,
      fa_zone_id = zone_id row,
      fa_zone_name = zone_name row,
      fa_flow_rate_lpm = flow_rate_lpm row,
      fa_expected_flow = fround 2 mean_flow,
      fa_deviation = fround 2 (fsub (Fin (flow_rate_lpm row)) mean_flow),
      fa_z_score = fround 2 (flow_z_score mean_flow std_flow row),
      fa_anomaly_type =
        (if fgt (Fin (flow_rate_lpm row)) mean_flow then ''excessive_flow'' else ''low_flow''),
      fa_severity = classify_severity (flow_z_score mean_flow std_flow row),
      fa_potential_cause = identify_cause (flow_rate_lpm row) mean_flow h\<rparr>"

definition hour_flow_anomalies :: "real \<Rightarrow> flow_reading list \<Rightarrow> int \<Rightarrow> flow_anomaly list" where
  "hour_flow_anomalies threshold_std zone_data h =
     (let hour_data = filter (\<lambda>r. hour r = Some h) zone_data
      in if length hour_data < 5 then []
         else let mean_flow = mean (map flow_rate_lpm hour_data);
                  std_flow = std (map flow_rate_lpm hour_data)
              in if std_flow = Fin 0 then []
                 else map (flow_anomaly_of mean_flow std_flow h)
                        (filter (\<lambda>r. fgt (flow_z_score mean_flow std_flow r) (Fin threshold_std))
                           hour_data))"

definition zone_flow_anomalies :: "real \<Rightarrow> flow_reading list \<Rightarrow> string \<Rightarrow> flow_anomaly list" where
  "zone_flow_anomalies threshold_std df zid =
     concat (map (hour_flow_anomalies threshold_std (filter (\<lambda>r. zone_id r = zid) df)) [0..23])"

definition flow_anomalies :: "real \<Rightarrow> flow_reading list \<Rightarrow> flow_anomaly list" where
  "flow_anomalies threshold_std df =
     concat (map (zone_flow_anomalies threshold_std df) (unique (map zone_id df)))"

definition detect_flow_anomalies :: "real \<Rightarrow> detector \<Rightarrow> flow_anomaly list \<times> detector" where
  "detect_flow_anomalies threshold_std self =
     (let self' = self\<lparr>flow_df := with_hour (flow_df self)\<rparr>
      in (flow_anomalies threshold_std (flow_df self'), self'))"

record leak =
  lk_zone_id :: string
  lk_zone_name :: string
  lk_avg_night_flow_lpm :: float64
  lk_estimated_daily_loss_liters :: float64
  lk_estimated_monthly_loss_liters :: float64
  lk_severity :: string
  lk_confidence :: string
  lk_recommended_action :: string

definition is_night :: "flow_reading \<Rightarrow> bool" where
  "is_night r = (case hour r of None \<Rightarrow> False | Some h \<Rightarrow> 0 \<le> h \<and> h \<le> 5)"

text \<open>
  A zone is visited only when it has a night row, and the mean of no rows is
  not-a-number, which exceeds no threshold: the first row is never read from an empty
  group.
\<close>

definition zone_leak :: "real \<Rightarrow> flow_reading list \<Rightarrow> string \<Rightarrow> leak list" where
  "zone_leak night_flow_threshold night_data zid =
     (let zone_night = filter (\<lambda>r. zone_id r = zid) night_data;
          avg_night_flow = mean (map flow_rate_lpm zone_night)
      in if fgt avg_night_flow (Fin night_flow_threshold) then
           (case zone_night of
              [] \<Rightarrow> []
            | first # _ \<Rightarrow>
                (let daily_loss = fmul (fmul avg_night_flow (Fin 60)) (Fin 24)
                 in [\<lparr>lk_zone_id = zid,
                      lk_zone_name = zone_name first,
                      lk_avg_night_flow_lpm = fround 2 avg_night_flow,
                      lk_estimated_daily_loss_liters = fround 0 daily_loss,
                      lk_estimated_monthly_loss_liters = fround 0 (fmul daily_loss (Fin 30)),
                      lk_severity = (if fgt avg_night_flow (Fin 500) then ''high'' else ''moderate''),
                      lk_confidence = (if fgt avg_night_flow (Fin 400) then ''high'' else ''medium''),
                      lk_recommended_action =
                        (if fgt avg_night_flow (Fin 500) then ''Immediate inspection required''
                         else ''Schedule inspection'')\<rparr>]))
         else [])"

definition leaks :: "real \<Rightarrow> flow_reading list \<Rightarrow> leak list" where
  "leaks night_flow_threshold df =
     (let night_data = filter is_night df
      in concat (map (zone_leak night_flow_threshold night_data) (unique (map zone_id night_data))))"

definition detect_leaks :: "real \<Rightarrow> detector \<Rightarrow> leak list \<times> detector" where
  "detect_leaks night_flow_threshold self =
     (let self' = self\<lparr>flow_df := with_hour (flow_df self)\<rparr>
      in (leaks night_flow_threshold (flow_df self'), self'))"

record burst =
  b_timestamp :: int
  b_zone_id :: string
  b_zone_name :: string
  b_sensor_id :: string
  b_pressure_before :: float64
  b_pressure_after :: float64
  b_pressure_drop :: float64
  b_severity :: string
  b_event_type :: string
  b_recommended_action :: string

definition burst_of :: "pressure_reading \<Rightarrow> float64 \<Rightarrow> burst" where
  "burst_of row pressure_change =
     \<lparr>b_timestamp = timestamp row,
      b_zone_id = zone_id row,
      b_zone_name = zone_name row,
      b_sensor_id = sensor_id row,
      b_pressure_before = fround 2 (fsub (Fin (pressure_psi row)) pressure_change),
      b_pressure_after = fround 2 (Fin (pressure_psi row)),
      b_pressure_drop = fround 2 (fabs pressure_change),
      b_severity = (if fgt (fabs pressure_change) (Fin 25) then ''critical'' else ''high''),
      b_event_type = ''potential_burst'',
      b_recommended_action = ''Emergency response required''\<rparr>"

text \<open>
  \<open>sort_values('timestamp')\<close> is modelled by a stable sort: rows with equal timestamps
  keep the order they have in the table.
\<close>

definition sensor_bursts :: "real \<Rightarrow> pressure_reading list \<Rightarrow> string \<Rightarrow> burst list" where
  "sensor_bursts pressure_drop_threshold df sid =
     (let sensor_data = sort_key timestamp (filter (\<lambda>r. sensor_id r = sid) df);
          pressure_change = diff (map pressure_psi sensor_data);
          sudden_drops =
            filter (\<lambda>(row, change). flt change (Fin (- pressure_drop_threshold)))
              (zip sensor_data pressure_change)
      in map (\<lambda>(row, change). burst_of row change) sudden_drops)"

definition bursts :: "real \<Rightarrow> pressure_reading list \<Rightarrow> burst list" where
  "bursts pressure_drop_threshold df =
     concat (map (sensor_bursts pressure_drop_threshold df) (unique (map sensor_id df)))"

definition detect_burst_events :: "real \<Rightarrow> detector \<Rightarrow> burst list \<times> detector" where
  "detect_burst_events pressure_drop_threshold self =
     (bursts pressure_drop_threshold (pressure_df self), self)"

section \<open>Summary\<close>

record summary =
  total_pressure_anomalies :: nat
  total_flow_anomalies :: nat
  potential_leaks :: nat
  potential_bursts :: nat
  critical_events :: nat

datatype error = KeyError string

text \<open>
  A table built from an empty list of records has no columns, so selecting its column
  \<open>severity\<close> raises \<open>KeyError\<close>. The four detectors have run by then.
\<close>

definition get_anomaly_summary ::
  "detector \<Rightarrow>
   (error + summary \<times> pressure_anomaly list \<times> flow_anomaly list \<times> leak list \<times> burst list)
   \<times> detector" where
  "get_anomaly_summary self =
     (let (pressure_anoms, s1) = detect_pressure_anomalies 2.5 self;
          (flow_anoms, s2) = detect_flow_anomalies 2.0 s1;
          (lks, s3) = detect_leaks 300 s2;
          (bsts, s4) = detect_burst_events 15 s3
      in if pressure_anoms = [] then (Inl (KeyError ''severity''), s4)
         else if bsts = [] then (Inl (KeyError ''severity''), s4)
         else
           (Inr (\<lparr>total_pressure_anomalies = length pressure_anoms,
                   total_flow_anomalies = length flow_anoms,
                   potential_leaks = length lks,
                   potential_bursts = length bsts,
                   critical_events =
                     length (filter (\<lambda>a. pa_severity a = ''critical'') pressure_anoms)
                     + length (filter (\<lambda>b. b_severity b = ''critical'') bsts)\<rparr>,
                 pressure_anoms, flow_anoms, lks, bsts),
            s4))"

section \<open>Analytics\<close>

text \<open>
  \<open>groupby\<close> visits the distinct keys in ascending order. A sort of a table by a column in
  descending order is modelled as the stable one: the table is reversed, sorted and
  reversed again.
\<close>

definition group_keys :: "string list \<Rightarrow> string list" where
  "group_keys ks = sort (remdups ks)"

definition sort_values_desc :: "('a \<Rightarrow> nat) \<Rightarrow> 'a list \<Rightarrow> 'a list" where
  "sort_values_desc k xs = rev (sort_key k (rev xs))"

record water_analytics =
  wa_pressure_df :: "pressure_reading list"
  wa_flow_df :: "flow_reading list"

record low_pressure_zone =
  lp_zone_name :: string
  low_pressure_count :: nat
  avg_low_pressure :: float64
  lp_zone_id :: string

definition low_pressure_group :: "pressure_reading list \<Rightarrow> string \<Rightarrow> low_pressure_zone list" where
  "low_pressure_group low_pressure name =
     (case filter (\<lambda>r. zone_name r = name) low_pressure of
        [] \<Rightarrow> []
      | first # rest \<Rightarrow>
          [\<lparr>lp_zone_name = name,
            low_pressure_count = length (first # rest),
            avg_low_pressure = fround 2 (mean (map pressure_psi (first # rest))),
            lp_zone_id = zone_id first\<rparr>])"

text \<open>
  The reading of the wall clock, \<open>datetime.now()\<close>, is the argument \<open>now\<close>; seven days are
  604800 seconds.
\<close>

definition get_low_pressure_zones ::
  "real \<Rightarrow> int \<Rightarrow> water_analytics \<Rightarrow> low_pressure_zone list" where
  "get_low_pressure_zones threshold now self =
     (let recent_data = filter (\<lambda>r. now - 604800 \<le> timestamp r) (wa_pressure_df self);
          low_pressure = filter (\<lambda>r. pressure_psi r < threshold) recent_data;
          summary =
            concat (map (low_pressure_group low_pressure) (group_keys (map zone_name low_pressure)))
      in sort_values_desc low_pressure_count summary)"




section \<open>Recommendations\<close>

text \<open>
  The impact of a recommendation is a formatted text around one number; the model keeps
  the number and the kind of text.
\<close>

datatype impact = LowPressureEvents nat | EstimatedLoss float64 | PressureDrop float64

record recommendation_row =
  priority :: string
  zone :: string
  issue :: string
  recommendation :: string
  impact :: impact

record water_system =
  analytics :: water_analytics
  anomaly_detector :: detector

definition low_pressure_recommendation :: "low_pressure_zone \<Rightarrow> recommendation_row" where
  "low_pressure_recommendation z =
     \<lparr>priority = ''high'',
      zone = lp_zone_name z,
      issue = ''Frequent low pressure'',
      recommendation = ''Install booster pumps or check for leaks'',
      impact = LowPressureEvents (low_pressure_count z)\<rparr>"

definition leak_recommendation :: "leak \<Rightarrow> recommendation_row" where
  "leak_recommendation l =
     \<lparr>priority = lk_severity l,
      zone = lk_zone_name l,
      issue = ''Potential water leak'',
      recommendation = lk_recommended_action l,
      impact = EstimatedLoss (lk_estimated_daily_loss_liters l)\<rparr>"

definition burst_recommendation :: "burst \<Rightarrow> recommendation_row" where
  "burst_recommendation b =
     \<lparr>priority = ''critical'',
      zone = b_zone_name b,
      issue = ''Potential pipe burst'',
      recommendation = b_recommended_action b,
      impact = PressureDrop (b_pressure_drop b)\<rparr>"

definition get_recommendations :: "int \<Rightarrow> water_system \<Rightarrow> recommendation_row list \<times> water_system" where
  "get_recommendations now self =
     (let low_pressure = get_low_pressure_zones 35 now (analytics self);
          r1 = map low_pressure_recommendation
                 (filter (\<lambda>z. 50 < low_pressure_count z) low_pressure);
          (lks, d1) = detect_leaks 300 (anomaly_detector self);
          r2 = map leak_recommendation lks;
          (bsts, d2) = detect_burst_events 15 d1;
          r3 = map burst_recommendation bsts
      in (r1 @ r2 @ r3, self\<lparr>anomaly_detector := d2\<rparr>))"

section \<open>The detectors in the words of their description\<close>






section \<open>Example datasets\<close>

definition pr :: "int \<Rightarrow> string \<Rightarrow> string \<Rightarrow> real \<Rightarrow> pressure_reading" where
  "pr ts zid sid v =
     \<lparr>timestamp = ts, zone_id = zid, zone_name = zid @ ''-name'', sensor_id = sid,
      pressure_psi = v, elevation = 100, status = ''normal''\<rparr>"

definition fr :: "int \<Rightarrow> string \<Rightarrow> real \<Rightarrow> int \<Rightarrow> flow_reading" where
  "fr ts zid v pop =
     \<lparr>timestamp = ts, zone_id = zid, zone_name = zid @ ''-name'',
      flow_rate_lpm = v, population = pop, hour = None\<rparr>"



text \<open>
  One zone with a single night reading (midnight) of 350.0004 litres per minute and a
  single reading at noon.
\<close>

definition leak_df :: "flow_reading list" where
  "leak_df = [fr 0 ''Z1'' 350.0004 1000, fr 43200 ''Z1'' 50 1000]"

definition leak_detector :: detector where
  "leak_detector = \<lparr>pressure_df = [], flow_df = leak_df\<rparr>"

text \<open>A zone of two equal pressure readings and one flow reading.\<close>

definition constant_detector :: detector where
  "constant_detector =
     \<lparr>pressure_df = [pr 0 ''Z2'' ''S2'' 40, pr 900 ''Z2'' ''S2'' 40],
      flow_df = [fr 0 ''Z2'' 100 1000]\<rparr>"

text \<open>
  Fifty-one readings of 30 PSI by one sensor, a quarter of an hour apart from time 0,
  loaded by the analytics and by the detector.
\<close>

definition low_df :: "pressure_reading list" where
  "low_df = map (\<lambda>i. pr (int i * 900) ''Z1'' ''S1'' 30) [0..<51]"

definition low_system :: water_system where
  "low_system =
     \<lparr>analytics = \<lparr>wa_pressure_df = low_df, wa_flow_df = []\<rparr>,
      anomaly_detector = \<lparr>pressure_df = low_df, flow_df = []\<rparr>\<rparr>"











section \<open>Basic facts\<close>

lemma set_unique [simp]: "set (unique xs) = set xs"
  by (induction xs rule: unique.induct) auto

lemma distinct_unique [simp]: "distinct (unique xs)"
  by (induction xs rule: unique.induct) auto




section \<open>Pressure outliers\<close>




section \<open>What the detectors leave behind\<close>

text \<open>
  C9, as the code has it. The pressure and the burst detector leave the detector's tables
  as they are. The flow and the leak detector leave the pressure table as it is and store
  the hour of day of every flow reading in the column \<open>hour\<close> of the flow table: the rows,
  their order and every other column stay, and a further run changes nothing more.
\<close>

theorem detectors_frame:
  "snd (detect_pressure_anomalies t self) = self
   \<and> snd (detect_burst_events t self) = self
   \<and> snd (detect_flow_anomalies t self) = self\<lparr>flow_df := with_hour (flow_df self)\<rparr>
   \<and> snd (detect_leaks t self) = self\<lparr>flow_df := with_hour (flow_df self)\<rparr>
   \<and> map (\<lambda>r. r\<lparr>hour := None\<rparr>) (with_hour (flow_df self))
       = map (\<lambda>r. r\<lparr>hour := None\<rparr>) (flow_df self)
   \<and> map hour (with_hour (flow_df self)) = map (\<lambda>r. Some (hour_of (timestamp r))) (flow_df self)
   \<and> with_hour (with_hour (flow_df self)) = with_hour (flow_df self)"
  by (simp add: detect_pressure_anomalies_def detect_burst_events_def detect_flow_anomalies_def
      detect_leaks_def Let_def with_hour_def)

text \<open>
  The claim as stated, that the flow table after a detector equals the flow table before
  it, fails for the leak detector on a table loaded without the column \<open>hour\<close>.
\<close>

theorem leaks_change_flow_table:
  "flow_df (snd (detect_leaks 300 leak_detector)) \<noteq> flow_df leak_detector"
  by (simp add: detect_leaks_def Let_def leak_detector_def leak_df_def fr_def with_hour_def)

section \<open>The summary\<close>

text \<open>
  C1. Insufficient data makes the detectors omit a group, and the summary is meant to
  count what they return. On a dataset whose only zone has constant pressure readings
  the pressure detector returns no record, and the summary does not return its counts:
  it raises \<open>KeyError\<close> when it selects the severity column of the empty table.
\<close>

theorem summary_fails_on_constant_zone:
  "fst (get_anomaly_summary constant_detector) = Inl (KeyError ''severity'')"
  by (simp add: get_anomaly_summary_def detect_pressure_anomalies_def detect_flow_anomalies_def
      detect_leaks_def detect_burst_events_def Let_def split_def constant_detector_def pr_def
      pressure_anomalies_def zone_pressure_anomalies_def mean_def std_def pressure_z_score_def
      fgt_def)

section \<open>The trailing window\<close>

lemma low_zones_after_one_day:
  "get_low_pressure_zones 35 86400 (analytics low_system) =
     [\<lparr>lp_zone_name = ''Z1-name'', low_pressure_count = 51, avg_low_pressure = Fin 30,
       lp_zone_id = ''Z1''\<rparr>]"
  by code_simp

lemma low_zones_after_ten_days:
  "get_low_pressure_zones 35 864000 (analytics low_system) = []"
  by code_simp

lemma recommendations_after_one_day:
  "fst (get_recommendations 86400 low_system) =
     [\<lparr>priority = ''high'', zone = ''Z1-name'', issue = ''Frequent low pressure'',
       recommendation = ''Install booster pumps or check for leaks'',
       impact = LowPressureEvents 51\<rparr>]"
  by code_simp

lemma recommendations_after_ten_days:
  "fst (get_recommendations 864000 low_system) = []"
  by code_simp

text \<open>
  C2, as the code has it. The low-pressure zones and the recommendations are a function
  of the tables and of the clock reading, and of the clock reading only through the
  readings that lie in the seven days before it: two clock readings that select the same
  readings give identical results. (The four detectors take no clock reading at all.)
\<close>

theorem same_window_same_result:
  assumes "\<forall>r\<in>set (wa_pressure_df (analytics self)).
             (now1 - 604800 \<le> timestamp r) = (now2 - 604800 \<le> timestamp r)"
  shows "get_low_pressure_zones threshold now1 (analytics self)
           = get_low_pressure_zones threshold now2 (analytics self)
         \<and> get_recommendations now1 self = get_recommendations now2 self"
proof -
  have f: "filter (\<lambda>r. now1 - 604800 \<le> timestamp r) (wa_pressure_df (analytics self))
         = filter (\<lambda>r. now2 - 604800 \<le> timestamp r) (wa_pressure_df (analytics self))"
    using assms by (intro filter_cong) auto
  have g: "get_low_pressure_zones t now1 (analytics self)
         = get_low_pressure_zones t now2 (analytics self)" for t
    unfolding get_low_pressure_zones_def f ..
  show ?thesis
    unfolding get_recommendations_def g by (simp add: g)
qed

theorem same_window_same_result_witness:
  "get_low_pressure_zones 35 86400 (analytics low_system)
     = get_low_pressure_zones 35 172800 (analytics low_system)
   \<and> get_recommendations 86400 low_system = get_recommendations 172800 low_system"
  using same_window_same_result [of low_system 86400 172800 35]
  by (simp add: low_system_def low_df_def pr_def)

text \<open>
  The claim as stated fails: the same tables give one low-pressure zone and one
  recommendation a day after the first reading, and none ten days after it.
\<close>

theorem clock_changes_low_pressure_zones:
  "get_low_pressure_zones 35 86400 (analytics low_system)
     \<noteq> get_low_pressure_zones 35 864000 (analytics low_system)
   \<and> fst (get_recommendations 86400 low_system) \<noteq> fst (get_recommendations 864000 low_system)"
  by (simp add: low_zones_after_one_day low_zones_after_ten_days
      recommendations_after_one_day recommendations_after_ten_days)

section \<open>Flow statistics\<close>

lemma set_group_keys [simp]: "set (group_keys ks) = set ks"
  by (simp add: group_keys_def)





section \<open>The fields of a pressure anomaly\<close>











section \<open>Leaks\<close>



lemma flows_with_hour [simp]: "map flow_rate_lpm (with_hour df) = map flow_rate_lpm df"
  by (simp add: with_hour_def)

lemma zone_ids_with_hour [simp]: "map zone_id (with_hour df) = map zone_id df"
  by (simp add: with_hour_def)

lemma with_hour_Nil_iff [simp]: "with_hour df = [] \<longleftrightarrow> df = []"
  by (simp add: with_hour_def)
















section \<open>Bursts\<close>















section \<open>Flow outliers\<close>












end
